theory Spec2Isabelle
  imports Complex_Main
begin

section \<open>Python text\<close>

text \<open>
  A Python \<open>str\<close> is a sequence of Unicode code points; a code point is modelled by its
  number. \<open>py\<close> reads an ASCII literal as such a sequence.
\<close>

type_synonym pychar = nat
type_synonym pystr = "pychar list"

definition py :: "string \<Rightarrow> pystr" where
  "py s = map of_char s"

definition nl :: pychar where
  "nl = 10"

text \<open>
  \<open>str.strip()\<close> without argument removes the characters for which \<open>str.isspace()\<close>
  holds from both ends: the ASCII controls 9 to 13 and 28 to 31, the space, U+0085, U+00A0,
  U+1680, U+2000 to U+200A, U+2028, U+2029, U+202F, U+205F and U+3000.
\<close>

definition isspace :: "pychar \<Rightarrow> bool" where
  "isspace c \<longleftrightarrow>
     (9 \<le> c \<and> c \<le> 13) \<or> (28 \<le> c \<and> c \<le> 32) \<or> c = 133 \<or> c = 160 \<or> c = 5760 \<or>
     (8192 \<le> c \<and> c \<le> 8202) \<or> c = 8232 \<or> c = 8233 \<or> c = 8239 \<or> c = 8287 \<or> c = 12288"

definition strip :: "pystr \<Rightarrow> pystr" where
  "strip s = rev (dropWhile isspace (rev (dropWhile isspace s)))"

text \<open>
  \<open>s.split("\n")\<close>: the fragments between the newlines of \<open>s\<close>, one more than there are
  newlines, so the result is never the empty list.
\<close>

fun split_nl :: "pystr \<Rightarrow> pystr list" where
  "split_nl [] = [[]]"
| "split_nl (c # cs) =
     (if c = nl then [] # split_nl cs
      else (case split_nl cs of
              [] \<Rightarrow> [[c]]
            | l # ls \<Rightarrow> (c # l) # ls))"

section \<open>Exceptions, logging and the inbound channel\<close>

text \<open>
  The exceptions the transport meets, all of them subclasses of Python's \<open>Exception\<close>.
  \<open>BaseException\<close>s that are not \<open>Exception\<close>s (task cancellation, keyboard interrupt)
  belong to the scheduler and are outside this model.
\<close>

datatype os_error = ProcessLookupError | PermissionError | FileNotFoundError

datatype exn =
    JSONDecodeError
  | ValidationError
  | ClosedResourceError
  | BrokenResourceError
  | TimeoutError
  | IndexError
  | AssertionError
  | TypeError
  | ValueError string
  | OSError os_error
  | OtherException

datatype level = DEBUG | INFO | WARNING | ERROR

text \<open>
  One constructor per logging call of \<open>stdio_client.py\<close>, named after the message's
  text; the formatted values kept are the exception and the stripped line.
\<close>

datatype log_text =
    Subprocess_started
  | Processing_line pystr
  | Parsed_JSON_data
  | Validated_JSONRPCMessage
  | JSON_decode_error exn pystr
  | Error_processing_message exn pystr
  | Traceback
  | Starting_stdout_reader
  | Read_stream_closed
  | Unexpected_error_in_stdout_reader exn
  | Exiting_stdout_reader
  | Starting_stdin_writer
  | Sending pystr
  | Write_stream_closed
  | Unexpected_error_in_stdin_writer exn
  | Exiting_stdin_writer
  | Terminating_subprocess
  | Process_already_terminated
  | Process_did_not_terminate_gracefully
  | Error_killing_process exn
  | Error_during_process_termination exn

type_synonym log_record = "level \<times> log_text"

text \<open>
  The send end of the inbound memory object stream (\<open>read_stream_writer\<close>): the messages
  delivered so far, whether this end has been closed, and whether the receive end has.
  \<open>send\<close> raises \<open>ClosedResourceError\<close> on a closed send end and
  \<open>BrokenResourceError\<close> when the receive end is closed.
\<close>

record 'm channel =
  items :: "'m list"
  chan_closed :: bool
  receive_end_closed :: bool

definition send :: "'m \<Rightarrow> 'm channel \<Rightarrow> exn + 'm channel" where
  "send m ch =
     (if chan_closed ch then Inl ClosedResourceError
      else if receive_end_closed ch then Inl BrokenResourceError
      else Inr (ch\<lparr>items := items ch @ [m]\<rparr>))"

definition aclose :: "'m channel \<Rightarrow> 'm channel" where
  "aclose ch = ch\<lparr>chan_closed := True\<rparr>"

text \<open>What the reader task acts on: the inbound channel and the log.\<close>

record 'm world =
  inbound :: "'m channel"
  logged :: "log_record list"

definition logging :: "level \<Rightarrow> log_text \<Rightarrow> 'm world \<Rightarrow> 'm world" where
  "logging lvl t w = w\<lparr>logged := logged w @ [(lvl, t)]\<rparr>"

section \<open>The stdout reader\<close>

text \<open>
  \<open>process_json_line\<close> (lines 43 to 63). \<open>json.loads\<close> and
  \<open>JSONRPCMessage.model_validate\<close> are library calls, taken as the parameters \<open>jl\<close> and
  \<open>mv\<close>. The body is one \<open>try\<close>: whatever \<open>json.loads\<close>, \<open>model_validate\<close> or
  \<open>writer.send\<close> raises is caught by one of the two handlers, so the call itself never
  raises.
\<close>

definition process_json_line_except :: "pystr \<Rightarrow> exn \<Rightarrow> 'm world \<Rightarrow> 'm world" where
  "process_json_line_except line exc w =
     (if exc = JSONDecodeError
      then logging ERROR (JSON_decode_error exc (strip line)) w
      else logging DEBUG Traceback (logging ERROR (Error_processing_message exc (strip line)) w))"

definition process_json_line ::
  "(pystr \<Rightarrow> exn + 'd) \<Rightarrow> ('d \<Rightarrow> exn + 'm) \<Rightarrow> pystr \<Rightarrow> 'm world \<Rightarrow> 'm world" where
  "process_json_line jl mv line w =
     (let w1 = logging DEBUG (Processing_line (strip line)) w in
      case jl line of
        Inl exc \<Rightarrow> process_json_line_except line exc w1
      | Inr data \<Rightarrow>
          (let w2 = logging DEBUG Parsed_JSON_data w1 in
           case mv data of
             Inl exc \<Rightarrow> process_json_line_except line exc w2
           | Inr message \<Rightarrow>
               (let w3 = logging DEBUG Validated_JSONRPCMessage w2 in
                case send message (inbound w3) of
                  Inl exc \<Rightarrow> process_json_line_except line exc w3
                | Inr ch \<Rightarrow> w3\<lparr>inbound := ch\<rparr>)))"

text \<open>\<open>lines.pop()\<close>: the last element and the list without it; \<open>IndexError\<close> on \<open>[]\<close>.\<close>

definition list_pop :: "'a list \<Rightarrow> exn + ('a list \<times> 'a)" where
  "list_pop xs = (if xs = [] then Inl IndexError else Inr (butlast xs, last xs))"

text \<open>The inner loop, lines 76 to 78: every line that is not blank is processed.\<close>

fun process_lines ::
  "(pystr \<Rightarrow> exn + 'd) \<Rightarrow> ('d \<Rightarrow> exn + 'm) \<Rightarrow> pystr list \<Rightarrow> 'm world \<Rightarrow> 'm world" where
  "process_lines jl mv [] w = w"
| "process_lines jl mv (line # lines) w =
     process_lines jl mv lines
       (if strip line \<noteq> [] then process_json_line jl mv line w else w)"

text \<open>
  The outer loop, lines 73 to 78, over the chunks that \<open>TextReceiveStream\<close> yields, from
  the buffer carried so far. It returns the buffer and the world after the last chunk, or
  the exception that left the loop.
\<close>

fun read_chunks ::
  "(pystr \<Rightarrow> exn + 'd) \<Rightarrow> ('d \<Rightarrow> exn + 'm) \<Rightarrow> pystr \<Rightarrow> pystr list \<Rightarrow> 'm world
     \<Rightarrow> (exn \<times> 'm world) + (pystr \<times> 'm world)" where
  "read_chunks jl mv buffer [] w = Inr (buffer, w)"
| "read_chunks jl mv buffer (chunk # chunks) w =
     (case list_pop (split_nl (buffer @ chunk)) of
        Inl exc \<Rightarrow> Inl (exc, w)
      | Inr (lines, buffer') \<Rightarrow>
          read_chunks jl mv buffer' chunks (process_lines jl mv lines w))"

text \<open>
  The child's stdout as the reader sees it: the text chunks it yields, and how the
  iteration ends: at the end of the stream, or with an exception of the read.
\<close>

datatype stream_end = End_of_stream | Read_error exn

type_synonym stdout_stream = "pystr list \<times> stream_end"

text \<open>
  The body of \<open>async with read_stream_writer\<close>, lines 73 to 80: the loop, then the flush
  of a buffer that is not blank. \<open>None\<close> is normal completion, \<open>Some exc\<close> an exception
  on its way to the handlers.
\<close>

definition stdout_reader_body ::
  "(pystr \<Rightarrow> exn + 'd) \<Rightarrow> ('d \<Rightarrow> exn + 'm) \<Rightarrow> stdout_stream \<Rightarrow> 'm world
     \<Rightarrow> exn option \<times> 'm world" where
  "stdout_reader_body jl mv stdout w =
     (case read_chunks jl mv [] (fst stdout) w of
        Inl (exc, w') \<Rightarrow> (Some exc, w')
      | Inr (buffer, w') \<Rightarrow>
          (case snd stdout of
             Read_error exc \<Rightarrow> (Some exc, w')
           | End_of_stream \<Rightarrow>
               (None, if strip buffer \<noteq> [] then process_json_line jl mv buffer w' else w')))"

datatype outcome = Returned | Raised exn

text \<open>
  \<open>stdout_reader\<close>, lines 65 to 88. The assertion stands before the \<open>try\<close>. Leaving
  \<open>async with read_stream_writer\<close> closes the send end of the inbound channel on every
  path; then the handlers run, then \<open>finally\<close>.
\<close>

definition stdout_reader ::
  "(pystr \<Rightarrow> exn + 'd) \<Rightarrow> ('d \<Rightarrow> exn + 'm) \<Rightarrow> stdout_stream option \<Rightarrow> 'm world
     \<Rightarrow> outcome \<times> 'm world" where
  "stdout_reader jl mv process_stdout w =
     (case process_stdout of
        None \<Rightarrow> (Raised AssertionError, w)
      | Some stdout \<Rightarrow>
          (let w0 = logging DEBUG Starting_stdout_reader w;
               (exc, w1) = stdout_reader_body jl mv stdout w0;
               w2 = w1\<lparr>inbound := aclose (inbound w1)\<rparr>;
               (res, w3) =
                 (case exc of
                    None \<Rightarrow> (Returned, w2)
                  | Some e \<Rightarrow>
                      if e = ClosedResourceError
                      then (Returned, logging DEBUG Read_stream_closed w2)
                      else (Raised e,
                            logging DEBUG Traceback
                              (logging ERROR (Unexpected_error_in_stdout_reader e) w2)))
           in (res, logging DEBUG Exiting_stdout_reader w3)))"

section \<open>The stdin writer\<close>





section \<open>Opening the session\<close>

text \<open>
  What \<open>server.args\<close> may hold: a list or a tuple of strings, or a value that is
  neither, such as a single string or \<open>None\<close>.
\<close>

datatype args_value =
    List_of "pystr list"
  | Tuple_of "pystr list"
  | Str_of pystr
  | None_value

record server_parameters =
  command :: pystr
  args :: args_value
  env :: "(pystr \<rightharpoonup> pystr) option"

text \<open>\<open>isinstance(server.args, (list, tuple))\<close>\<close>

fun isinstance_list_tuple :: "args_value \<Rightarrow> bool" where
  "isinstance_list_tuple (List_of xs) = True"
| "isinstance_list_tuple (Tuple_of xs) = True"
| "isinstance_list_tuple (Str_of s) = False"
| "isinstance_list_tuple None_value = False"

text \<open>
  \<open>*server.args\<close>: the elements of a list or tuple, the characters of a string,
  \<open>TypeError\<close> on \<open>None\<close>.
\<close>

fun unpack :: "args_value \<Rightarrow> exn + pystr list" where
  "unpack (List_of xs) = Inr xs"
| "unpack (Tuple_of xs) = Inr xs"
| "unpack (Str_of s) = Inr (map (\<lambda>c. [c]) s)"
| "unpack None_value = Inl TypeError"

text \<open>\<open>server.env or {}\<close>: \<open>None\<close> and the empty dict both give the empty dict.\<close>

definition or_empty :: "(pystr \<rightharpoonup> pystr) option \<Rightarrow> (pystr \<rightharpoonup> pystr)" where
  "or_empty e = (case e of None \<Rightarrow> Map.empty | Some d \<Rightarrow> d)"

text \<open>The resources the opening acquires and the calls it makes, in order.\<close>

datatype effect =
    Create_memory_object_stream nat
  | Open_process "pystr list" "pystr \<rightharpoonup> pystr"
  | Logged level log_text

text \<open>
  \<open>stdio_client\<close>, lines 17 to 40: the two checks, the two memory object streams, the
  launch of the child. \<open>get_default_environment()\<close> is the parameter
  \<open>default_environment\<close>, its result; \<open>anyio.open_process\<close> is the parameter
  \<open>open_process\<close>, which gives the process or the exception of the launch. The result is
  the effects in the order they happen, and the process or the exception raised.
\<close>

definition stdio_client_open ::
  "(pystr \<rightharpoonup> pystr) \<Rightarrow> (pystr list \<Rightarrow> (pystr \<rightharpoonup> pystr) \<Rightarrow> exn + 'p) \<Rightarrow> server_parameters
     \<Rightarrow> effect list \<times> (exn + 'p)" where
  "stdio_client_open default_environment open_process server =
     (if command server = [] then ([], Inl (ValueError ''Server command must not be empty.''))
      else if \<not> isinstance_list_tuple (args server)
      then ([], Inl (ValueError ''Server arguments must be a list or tuple.''))
      else
        (let streams = [Create_memory_object_stream 0, Create_memory_object_stream 0] in
         case unpack (args server) of
           Inl exc \<Rightarrow> (streams, Inl exc)
         | Inr rest \<Rightarrow>
             (let argv = command server # rest;
                  environ = default_environment ++ or_empty (env server)
              in case open_process argv environ of
                   Inl exc \<Rightarrow> (streams @ [Open_process argv environ], Inl exc)
                 | Inr process \<Rightarrow>
                     (streams @ [Open_process argv environ, Logged DEBUG Subprocess_started],
                      Inr process))))"

section \<open>Terminating the child\<close>

text \<open>
  The child as \<open>terminate_process\<close> meets it: the \<open>returncode\<close> it reads first, the
  error of the operating system that \<open>process.terminate()\<close> and \<open>process.kill()\<close>
  raise, if any (sending a signal does not time out), and how long after the termination
  request the child exits (\<open>None\<close>: it never does). Time is in seconds.
\<close>

record process =
  returncode :: "int option"
  terminate_raises :: "os_error option"
  exit_delay :: "real option"
  kill_raises :: "os_error option"

datatype process_call = Call_terminate | Call_wait real | Call_kill

text \<open>
  \<open>with anyio.fail_after(bound): await process.wait()\<close>: the time waited when the child
  exits before the bound, \<open>TimeoutError\<close> at the bound otherwise, also for a child that
  exits exactly then.
\<close>

definition fail_after_wait :: "real \<Rightarrow> real option \<Rightarrow> exn + real" where
  "fail_after_wait bound delay =
     (case delay of
        None \<Rightarrow> Inl TimeoutError
      | Some d \<Rightarrow> if d < bound then Inr d else Inl TimeoutError)"

text \<open>The \<open>try\<close> block, lines 113 to 119: the exception that leaves it, the calls, the log.\<close>

definition terminate_try :: "process \<Rightarrow> exn option \<times> process_call list \<times> log_record list" where
  "terminate_try p =
     (case returncode p of
        Some rc \<Rightarrow> (None, [], [(INFO, Process_already_terminated)])
      | None \<Rightarrow>
          (case terminate_raises p of
             Some err \<Rightarrow>
               (Some (OSError err), [Call_terminate], [(DEBUG, Terminating_subprocess)])
           | None \<Rightarrow>
               (case fail_after_wait 5 (exit_delay p) of
                  Inl exc \<Rightarrow>
                    (Some exc, [Call_terminate, Call_wait 5], [(DEBUG, Terminating_subprocess)])
                | Inr d \<Rightarrow>
                    (None, [Call_terminate, Call_wait d], [(DEBUG, Terminating_subprocess)]))))"

text \<open>
  \<open>terminate_process\<close>, lines 110 to 129: the \<open>try\<close> block and its two handlers, the
  first of which kills the child inside a \<open>try\<close> of its own.
\<close>

definition terminate_process :: "process \<Rightarrow> outcome \<times> process_call list \<times> log_record list" where
  "terminate_process p =
     (let (exc, calls, lg) = terminate_try p in
      case exc of
        None \<Rightarrow> (Returned, calls, lg)
      | Some e \<Rightarrow>
          if e = TimeoutError
          then
            (let lg1 = lg @ [(WARNING, Process_did_not_terminate_gracefully)] in
             case kill_raises p of
               None \<Rightarrow> (Returned, calls @ [Call_kill], lg1)
             | Some err \<Rightarrow>
                 (Returned, calls @ [Call_kill],
                  lg1 @ [(ERROR, Error_killing_process (OSError err))]))
          else (Returned, calls, lg @ [(ERROR, Error_during_process_termination e)]))"

section \<open>The message codec\<close>

text \<open>
  Modelled from the spec: the JSON text of the Message Codec. The encoder behind
  \<open>model_dump_json\<close> and the parser \<open>json.loads\<close> are library code, and the class
  \<open>JSONRPCMessage\<close> (\<open>mcpcli.messages.message_types.json_rpc_message\<close>) is not under
  \<open>src/\<close>. The spec's codec "serializes the message to JSON omitting fields that are
  explicitly absent/null" and "parses the line as JSON", failing when parsing fails or when
  "the parsed value does not satisfy the minimal required shape".

  A JSON value as Python holds it: \<open>None\<close>, a bool, an int, a str, a list, or a dict as
  its items in insertion order. Floats are left out.
\<close>

datatype json =
    JNull
  | JBool bool
  | JInt int
  | JStr pystr
  | JList "json list"
  | JDict "(pystr \<times> json) list"

text \<open>
  Modelled from the spec: the encoder. Compact JSON, with no space after a comma or a
  colon. In a string the quote (34) and the backslash (92) are escaped with a backslash,
  the controls 8, 12, 10, 13 and 9 as \<open>\b \f \n \r \t\<close>, every other character below
  32 as \<open>\u00XX\<close> in lower-case hexadecimal; every other character stands for itself.
\<close>

definition hex_digit :: "nat \<Rightarrow> pychar" where
  "hex_digit d = (if d < 10 then 48 + d else 87 + d)"

definition escape_char :: "pychar \<Rightarrow> pystr" where
  "escape_char c =
     (if c = 34 then [92, 34]
      else if c = 92 then [92, 92]
      else if c = 8 then [92, 98]
      else if c = 12 then [92, 102]
      else if c = 10 then [92, 110]
      else if c = 13 then [92, 114]
      else if c = 9 then [92, 116]
      else if c < 32 then [92, 117, 48, 48, hex_digit (c div 16), hex_digit (c mod 16)]
      else [c])"

definition dump_str :: "pystr \<Rightarrow> pystr" where
  "dump_str s = 34 # concat (map escape_char s) @ [34]"

text \<open>An integer in decimal, with a minus sign (45) when it is negative.\<close>

fun dec :: "nat \<Rightarrow> pystr" where
  "dec n = (if n < 10 then [48 + n] else dec (n div 10) @ [48 + n mod 10])"

definition dump_int :: "int \<Rightarrow> pystr" where
  "dump_int i = (if i < 0 then 45 # dec (nat (- i)) else dec (nat i))"

text \<open>
  A list is its elements between brackets (91, 93), a dict its members between braces
  (123, 125), a member its key, a colon (58) and its value; commas (44) separate.
  \<open>dump_elems\<close> and \<open>dump_members\<close> write what follows the opening bracket or brace.
\<close>

fun dumps :: "json \<Rightarrow> pystr"
  and dump_elems :: "json list \<Rightarrow> pystr"
  and dump_members :: "(pystr \<times> json) list \<Rightarrow> pystr" where
  "dumps JNull = py ''null''"
| "dumps (JBool b) = (if b then py ''true'' else py ''false'')"
| "dumps (JInt i) = dump_int i"
| "dumps (JStr s) = dump_str s"
| "dumps (JList vs) = 91 # dump_elems vs"
| "dumps (JDict kvs) = 123 # dump_members kvs"
| "dump_elems [] = [93]"
| "dump_elems [v] = dumps v @ [93]"
| "dump_elems (v # v' # vs) = dumps v @ 44 # dump_elems (v' # vs)"
| "dump_members [] = [125]"
| "dump_members [(k, v)] = dump_str k @ 58 # dumps v @ [125]"
| "dump_members ((k, v) # kv # kvs) = dump_str k @ 58 # dumps v @ 44 # dump_members (kv # kvs)"

text \<open>
  Modelled from the spec: the parser. JSON's whitespace is the space, the tab, the newline
  and the carriage return.
\<close>

definition is_ws :: "pychar \<Rightarrow> bool" where
  "is_ws c \<longleftrightarrow> c = 32 \<or> c = 9 \<or> c = 10 \<or> c = 13"

definition skip_ws :: "pystr \<Rightarrow> pystr" where
  "skip_ws s = dropWhile is_ws s"





text \<open>
  An integer: an optional minus sign, then a single \<open>0\<close> or digits that do not start
  with \<open>0\<close>. A fraction or an exponent after it would make a float, which the model
  does not have: the parse fails there.
\<close>

definition is_digit :: "pychar \<Rightarrow> bool" where
  "is_digit c \<longleftrightarrow> 48 \<le> c \<and> c \<le> 57"









text \<open>
  Modelled from the spec: the message class, whose declaration is not under \<open>src/\<close>. A
  message is the values of its fields, \<open>JNull\<close> for a field that is \<open>None\<close>. The class
  is its declared fields, each with its default or, for a required field, with none.
  \<open>model_dump_json(exclude_none=True)\<close> writes the dict of the fields that are not
  \<open>None\<close>, in the order of their declaration. \<open>model_validate\<close> accepts a dict that has
  every required field; a field the dict lacks takes its default, a key that is not a
  field is ignored.
\<close>

type_synonym message = "pystr \<Rightarrow> json"






section \<open>Notions the properties are stated with\<close>

text \<open>
  Decoding a line, as lines 46 and 52 do it: \<open>json.loads\<close>, then \<open>model_validate\<close>
  on its result.
\<close>

definition decode :: "(pystr \<Rightarrow> exn + 'd) \<Rightarrow> ('d \<Rightarrow> exn + 'm) \<Rightarrow> pystr \<Rightarrow> exn + 'm" where
  "decode jl mv line = (case jl line of Inl exc \<Rightarrow> Inl exc | Inr data \<Rightarrow> mv data)"

text \<open>
  A text read on its own, without the reader: the lines a newline terminates, and what
  follows the last newline.
\<close>

definition complete_lines :: "pystr \<Rightarrow> pystr list" where
  "complete_lines t = butlast (split_nl t)"

definition trailing_fragment :: "pystr \<Rightarrow> pystr" where
  "trailing_fragment t = rev (takeWhile (\<lambda>c. c \<noteq> nl) (rev t))"

text \<open>
  Every call of \<open>process_json_line\<close> starts with the record \<open>Processing line\<close>, so
  these records count the decode attempts.
\<close>

fun is_attempt :: "log_record \<Rightarrow> bool" where
  "is_attempt (lvl, Processing_line s) = True"
| "is_attempt (lvl, t) = False"

definition attempts :: "'m world \<Rightarrow> nat" where
  "attempts w = length (filter is_attempt (logged w))"

definition errors :: "'m world \<Rightarrow> log_record list" where
  "errors w = filter (\<lambda>r. fst r = ERROR) (logged w)"

definition delivered :: "'m world \<Rightarrow> 'm list" where
  "delivered w = items (inbound w)"

text \<open>The lines of a text that the reader attempts: those that are not blank.\<close>

definition nonblank_lines :: "pystr \<Rightarrow> pystr list" where
  "nonblank_lines t = filter (\<lambda>l. strip l \<noteq> []) (complete_lines t @ [trailing_fragment t])"






definition value_start :: "pychar \<Rightarrow> bool" where
  "value_start c \<longleftrightarrow> \<not> is_ws c \<and> c \<noteq> 44 \<and> c \<noteq> 93 \<and> c \<noteq> 125"

text \<open>
  The opening failed on its parameters: one of the two \<open>ValueError\<close>s of lines 20 and
  24, with nothing acquired before it.
\<close>

definition invalid_parameters :: "effect list \<times> (exn + 'p) \<Rightarrow> bool" where
  "invalid_parameters r \<longleftrightarrow>
     r = ([], Inl (ValueError ''Server command must not be empty.''))
     \<or> r = ([], Inl (ValueError ''Server arguments must be a list or tuple.''))"

section \<open>Concrete inputs\<close>

text \<open>
  A stand-in for \<open>json.loads\<close> on concrete lines: it accepts a line whose stripped
  text opens with a left brace and ends with a right brace, and raises
  \<open>JSONDecodeError\<close> on every other line. The stand-in for \<open>model_validate\<close> accepts
  every value.
\<close>

definition example_loads :: "pystr \<Rightarrow> exn + pystr" where
  "example_loads line =
     (let s = strip line in
      if s \<noteq> [] \<and> hd s = of_char CHR ''{'' \<and> last s = of_char CHR ''}''
      then Inr s else Inl JSONDecodeError)"

definition example_validate :: "pystr \<Rightarrow> exn + pystr" where
  "example_validate data = Inr data"

definition open_world :: "pystr world" where
  "open_world =
     \<lparr>inbound = \<lparr>items = [], chan_closed = False, receive_end_closed = False\<rparr>, logged = []\<rparr>"

definition receiver_closed_world :: "pystr world" where
  "receiver_closed_world =
     \<lparr>inbound = \<lparr>items = [], chan_closed = False, receive_end_closed = True\<rparr>, logged = []\<rparr>"

text \<open>
  A launch that succeeds with process id 4242, a default environment, parameters that
  override one of its variables and add another, a child that ignores the termination
  request and cannot be killed, and a child that has exited.
\<close>

definition example_open_process :: "pystr list \<Rightarrow> (pystr \<rightharpoonup> pystr) \<Rightarrow> exn + nat" where
  "example_open_process argv environ = Inr 4242"

definition example_default_environment :: "pystr \<rightharpoonup> pystr" where
  "example_default_environment = [py ''HOME'' \<mapsto> py ''/root'', py ''PATH'' \<mapsto> py ''/usr/bin'']"

definition example_server :: server_parameters where
  "example_server =
     \<lparr>command = py ''uvx'', args = List_of [py ''mcp-server-sqlite''],
      env = Some [py ''PATH'' \<mapsto> py ''/opt/bin'', py ''DB'' \<mapsto> py ''test.db'']\<rparr>"

definition stubborn_process :: process where
  "stubborn_process =
     \<lparr>returncode = None, terminate_raises = None, exit_delay = None,
      kill_raises = Some PermissionError\<rparr>"

definition exited_process :: process where
  "exited_process =
     \<lparr>returncode = Some 0, terminate_raises = None, exit_delay = None, kill_raises = None\<rparr>"



section \<open>Splitting text at newlines\<close>

lemma split_nl_not_Nil: "split_nl s \<noteq> []"
  by (induction s) (auto split: list.splits)

lemma split_nl_no_nl: "nl \<notin> set s \<Longrightarrow> split_nl s = [s]"
  by (induction s) auto

lemma split_nl_line: "nl \<notin> set l \<Longrightarrow> split_nl (l @ nl # rest) = l # split_nl rest"
  by (induction l) auto

text \<open>Splitting a text in two pieces: only the last fragment of the first piece is open.\<close>

lemma split_nl_append:
  "split_nl (xs @ ys) = butlast (split_nl xs) @ split_nl (last (split_nl xs) @ ys)"
proof (induction xs)
  case Nil
  then show ?case by simp
next
  case (Cons c cs)
  show ?case
  proof (cases "c = nl")
    case True
    then show ?thesis using Cons split_nl_not_Nil [of cs] by simp
  next
    case False
    obtain l ls where s: "split_nl cs = l # ls"
      using split_nl_not_Nil [of cs] by (cases "split_nl cs") auto
    show ?thesis
    proof (cases ls)
      case Nil
      then show ?thesis using False s Cons by simp
    next
      case (Cons a as)
      then show ?thesis using False s Cons.IH by simp
    qed
  qed
qed

lemma last_split_nl: "last (split_nl s) = rev (takeWhile (\<lambda>c. c \<noteq> nl) (rev s))"
proof (induction s rule: rev_induct)
  case Nil
  then show ?case by simp
next
  case (snoc x xs)
  let ?t = "rev (takeWhile (\<lambda>c. c \<noteq> nl) (rev xs))"
  have t: "nl \<notin> set ?t"
    using set_takeWhileD [of nl "\<lambda>c. c \<noteq> nl" "rev xs"] by auto
  have step: "last (split_nl (xs @ [x])) = last (split_nl (?t @ [x]))"
    using split_nl_append [of xs "[x]"] snoc split_nl_not_Nil [of "?t @ [x]"] by simp
  show ?case
  proof (cases "x = nl")
    case True
    then show ?thesis using step split_nl_line [OF t, of "[]"] by simp
  next
    case False
    then have "nl \<notin> set (?t @ [x])" using t by simp
    then have "split_nl (?t @ [x]) = [?t @ [x]]" by (rule split_nl_no_nl)
    then show ?thesis using step False by simp
  qed
qed

lemma last_split_nl_no_nl: "nl \<notin> set (last (split_nl s))"
  using set_takeWhileD [of nl "\<lambda>c. c \<noteq> nl" "rev s"] by (auto simp: last_split_nl)

lemma trailing_fragment_no_nl: "nl \<notin> set (trailing_fragment t)"
  using last_split_nl_no_nl [of t] by (simp add: trailing_fragment_def last_split_nl)

section \<open>The reader loop, read from the whole text\<close>

lemma process_lines_append:
  "process_lines jl mv (xs @ ys) w = process_lines jl mv ys (process_lines jl mv xs w)"
  by (induction xs arbitrary: w) auto

text \<open>\<open>lines.pop()\<close> never raises: a split has at least one fragment.\<close>

lemma list_pop_split_nl: "list_pop (split_nl s) = Inr (butlast (split_nl s), last (split_nl s))"
  by (simp add: list_pop_def split_nl_not_Nil)

lemma read_chunks_eq:
  "nl \<notin> set b \<Longrightarrow>
   read_chunks jl mv b cs w =
     Inr (last (split_nl (b @ concat cs)),
          process_lines jl mv (butlast (split_nl (b @ concat cs))) w)"
proof (induction cs arbitrary: b w)
  case Nil
  then show ?case by (simp add: split_nl_no_nl)
next
  case (Cons c cs)
  let ?b' = "last (split_nl (b @ c))"
  have b': "nl \<notin> set ?b'" by (rule last_split_nl_no_nl)
  have sp: "split_nl (b @ c @ concat cs) = butlast (split_nl (b @ c)) @ split_nl (?b' @ concat cs)"
    using split_nl_append [of "b @ c" "concat cs"] by simp
  have l: "last (split_nl (b @ c @ concat cs)) = last (split_nl (?b' @ concat cs))"
    unfolding sp by (simp add: split_nl_not_Nil)
  have bl: "butlast (split_nl (b @ c @ concat cs)) =
      butlast (split_nl (b @ c)) @ butlast (split_nl (?b' @ concat cs))"
    unfolding sp by (simp add: butlast_append split_nl_not_Nil)
  show ?case
    by (simp add: list_pop_split_nl Cons.IH [OF b'] l bl process_lines_append)
qed

lemma read_chunks_text:
  "read_chunks jl mv [] cs w =
     Inr (trailing_fragment (concat cs), process_lines jl mv (complete_lines (concat cs)) w)"
  using read_chunks_eq [of "[]" jl mv cs w]
  by (simp add: trailing_fragment_def complete_lines_def last_split_nl)

lemma stdout_reader_body_text:
  "stdout_reader_body jl mv (cs, e) w =
     (let w' = process_lines jl mv (complete_lines (concat cs)) w;
          b = trailing_fragment (concat cs)
      in case e of
           Read_error exc \<Rightarrow> (Some exc, w')
         | End_of_stream \<Rightarrow> (None, if strip b \<noteq> [] then process_json_line jl mv b w' else w'))"
  by (simp add: stdout_reader_body_def read_chunks_text Let_def)

lemma read_chunks_append:
  "read_chunks jl mv b (cs1 @ cs2) w =
     (case read_chunks jl mv b cs1 w of
        Inl e \<Rightarrow> Inl e
      | Inr (b1, w1) \<Rightarrow> read_chunks jl mv b1 cs2 w1)"
  by (induction cs1 arbitrary: b w) (auto split: sum.splits)

section \<open>What one call of \<open>process_json_line\<close> does\<close>

lemma process_json_line_logged_prefix:
  "\<exists>new. logged (process_json_line jl mv line w) =
           logged w @ (DEBUG, Processing_line (strip line)) # new
     \<and> filter is_attempt new = []"
  by (auto simp: process_json_line_def process_json_line_except_def logging_def send_def Let_def
      split: sum.splits)

lemma attempts_process_json_line:
  "attempts (process_json_line jl mv line w) = Suc (attempts w)"
  using process_json_line_logged_prefix [of jl mv line w] by (auto simp: attempts_def)

lemma process_json_line_flags:
  "chan_closed (inbound (process_json_line jl mv line w)) = chan_closed (inbound w)"
  "receive_end_closed (inbound (process_json_line jl mv line w)) = receive_end_closed (inbound w)"
  by (auto simp: process_json_line_def process_json_line_except_def logging_def send_def Let_def
      split: sum.splits)

lemma process_json_line_open:
  "\<not> chan_closed (inbound w) \<Longrightarrow> \<not> receive_end_closed (inbound w) \<Longrightarrow>
   inbound (process_json_line jl mv line w) =
     (case decode jl mv line of
        Inl exc \<Rightarrow> inbound w
      | Inr m \<Rightarrow> (inbound w)\<lparr>items := items (inbound w) @ [m]\<rparr>)"
  by (auto simp: process_json_line_def process_json_line_except_def logging_def send_def Let_def
      decode_def split: sum.splits)

lemma process_json_line_errors:
  "\<not> chan_closed (inbound w) \<Longrightarrow> \<not> receive_end_closed (inbound w) \<Longrightarrow>
   errors (process_json_line jl mv line w) =
     (case decode jl mv line of
        Inl exc \<Rightarrow>
          errors w @ [(ERROR, if exc = JSONDecodeError then JSON_decode_error exc (strip line)
                              else Error_processing_message exc (strip line))]
      | Inr m \<Rightarrow> errors w)"
  by (auto simp: process_json_line_def process_json_line_except_def logging_def send_def Let_def
      decode_def errors_def split: sum.splits)

lemma logging_simps:
  "inbound (logging lvl t w) = inbound w"
  "delivered (logging lvl t w) = delivered w"
  "errors (logging DEBUG t w) = errors w"
  "attempts (logging DEBUG Starting_stdout_reader w) = attempts w"
  "attempts (logging DEBUG Exiting_stdout_reader w) = attempts w"
  by (simp_all add: logging_def delivered_def errors_def attempts_def)

lemma aclose_simps:
  "delivered (w\<lparr>inbound := aclose (inbound w)\<rparr>) = delivered w"
  "errors (w\<lparr>inbound := aclose (inbound w)\<rparr>) = errors w"
  "attempts (w\<lparr>inbound := aclose (inbound w)\<rparr>) = attempts w"
  by (simp_all add: aclose_def delivered_def errors_def attempts_def)

lemma stdout_reader_end_of_stream:
  "stdout_reader jl mv (Some (cs, End_of_stream)) w =
     (Returned,
      logging DEBUG Exiting_stdout_reader
        ((snd (stdout_reader_body jl mv (cs, End_of_stream) (logging DEBUG Starting_stdout_reader w)))
           \<lparr>inbound := aclose (inbound (snd (stdout_reader_body jl mv (cs, End_of_stream)
               (logging DEBUG Starting_stdout_reader w))))\<rparr>))"
  by (simp add: stdout_reader_def stdout_reader_body_text Let_def)

lemma three_lines_split:
  assumes "nl \<notin> set l1" "nl \<notin> set l2" "nl \<notin> set l3"
  shows "split_nl (l1 @ [nl] @ l2 @ [nl] @ l3 @ [nl]) = [l1, l2, l3, []]"
  using assms by (simp add: split_nl_line)

section \<open>Properties of the stdout reader\<close>

text \<open>The definitions a run on concrete inputs unfolds.\<close>

lemmas ev = stdout_reader_def stdout_reader_body_def list_pop_def py_def nl_def
  process_json_line_def process_json_line_except_def example_loads_def example_validate_def
  strip_def isspace_def open_world_def receiver_closed_world_def logging_def send_def aclose_def
  delivered_def errors_def attempts_def Let_def decode_def trailing_fragment_def

text \<open>
  C2. Chunk-boundary invariance. Two sequences of chunks with the same concatenation, in
  particular two ways of cutting the same sequence of newline-terminated lines, give the
  same run of \<open>stdout_reader\<close>: the same outcome, the same messages delivered in the same
  order, the same log.
\<close>

theorem chunk_boundary_invariance:
  "concat cs1 = concat cs2 \<Longrightarrow>
   stdout_reader jl mv (Some (cs1, e)) w = stdout_reader jl mv (Some (cs2, e)) w"
  by (simp add: stdout_reader_def stdout_reader_body_text)

theorem chunk_boundary_invariance_witness:
  "concat [py ''{\"id\":1}\<newline>{\"i'', py ''d\":2}'', py ''\<newline>'']
     = concat [py ''{\"id\":1}\<newline>'', py ''{\"id\":2}\<newline>'']
   \<and> stdout_reader example_loads example_validate
         (Some ([py ''{\"id\":1}\<newline>{\"i'', py ''d\":2}'', py ''\<newline>''], End_of_stream)) open_world
     = stdout_reader example_loads example_validate
         (Some ([py ''{\"id\":1}\<newline>'', py ''{\"id\":2}\<newline>''], End_of_stream)) open_world
   \<and> delivered (snd (stdout_reader example_loads example_validate
         (Some ([py ''{\"id\":1}\<newline>{\"i'', py ''d\":2}'', py ''\<newline>''], End_of_stream)) open_world))
     = [py ''{\"id\":1}'', py ''{\"id\":2}'']"
proof -
  have c: "concat [py ''{\"id\":1}\<newline>{\"i'', py ''d\":2}'', py ''\<newline>'']
      = concat [py ''{\"id\":1}\<newline>'', py ''{\"id\":2}\<newline>'']"
    by (simp add: py_def)
  have d: "delivered (snd (stdout_reader example_loads example_validate
         (Some ([py ''{\"id\":1}\<newline>'', py ''{\"id\":2}\<newline>''], End_of_stream)) open_world))
     = [py ''{\"id\":1}'', py ''{\"id\":2}'']"
    by (simp add: stdout_reader_def stdout_reader_body_def list_pop_def py_def nl_def
        process_json_line_def example_loads_def example_validate_def strip_def isspace_def
        open_world_def logging_def send_def aclose_def delivered_def Let_def)
  show ?thesis
    using chunk_boundary_invariance [OF c, of example_loads example_validate End_of_stream open_world] c d
    by simp
qed

text \<open>
  C8. The invariant of the partial-line buffer. In every run, once the chunks \<open>cs1\<close> have
  been processed (whatever chunks \<open>cs2\<close> follow), the loop has not raised, the buffer it
  carries is the text after the last newline of the data seen so far, and it holds no
  newline.
\<close>

theorem buffer_invariant:
  "\<exists>w1. read_chunks jl mv [] cs1 w = Inr (trailing_fragment (concat cs1), w1)
     \<and> read_chunks jl mv [] (cs1 @ cs2) w = read_chunks jl mv (trailing_fragment (concat cs1)) cs2 w1
     \<and> nl \<notin> set (trailing_fragment (concat cs1))"
  by (simp add: read_chunks_append read_chunks_text trailing_fragment_no_nl)

theorem buffer_invariant_witness:
  "\<exists>w1. read_chunks example_loads example_validate [] [py ''{\"id\":1}\<newline>{\"i''] open_world
           = Inr (py ''{\"i'', w1)
     \<and> read_chunks example_loads example_validate [] ([py ''{\"id\":1}\<newline>{\"i''] @ [py ''d\":2}\<newline>'']) open_world
         = read_chunks example_loads example_validate (py ''{\"i'') [py ''d\":2}\<newline>''] w1
     \<and> nl \<notin> set (py ''{\"i'')"
proof -
  have t: "trailing_fragment (concat [py ''{\"id\":1}\<newline>{\"i'']) = py ''{\"i''"
    by (simp add: trailing_fragment_def py_def nl_def)
  show ?thesis
    using buffer_invariant [of example_loads example_validate "[py ''{\"id\":1}\<newline>{\"i'']" open_world
        "[py ''d\":2}\<newline>'']"]
    unfolding t by simp
qed

text \<open>
  C7. The flush at the end of the stream. When the stream ends, with \<open>buffer\<close> the
  partial line the loop has left and \<open>w'\<close> the world it has left, the reader makes one
  more call of \<open>process_json_line\<close>, on \<open>buffer\<close>, when \<open>buffer\<close> is not blank, and none
  when it is blank or empty: the decode attempts grow by exactly one, or not at all.
\<close>

theorem final_flush:
  "\<exists>buffer w'. read_chunks jl mv [] chunks w = Inr (buffer, w')
     \<and> buffer = trailing_fragment (concat chunks)
     \<and> stdout_reader_body jl mv (chunks, End_of_stream) w =
         (None, if strip buffer \<noteq> [] then process_json_line jl mv buffer w' else w')
     \<and> attempts (snd (stdout_reader_body jl mv (chunks, End_of_stream) w)) =
         attempts w' + (if strip buffer \<noteq> [] then 1 else 0)"
  by (simp add: read_chunks_text stdout_reader_body_def attempts_process_json_line)

theorem final_flush_witness:
  "stdout_reader_body example_loads example_validate ([py ''{\"id\":1}\<newline>{\"i'', py ''d\":2}''], End_of_stream) open_world
     = (None, process_json_line example_loads example_validate (py ''{\"id\":2}'')
                (process_json_line example_loads example_validate (py ''{\"id\":1}'') open_world))
   \<and> stdout_reader_body example_loads example_validate ([py ''{\"id\":1}\<newline>  ''], End_of_stream) open_world
     = (None, process_json_line example_loads example_validate (py ''{\"id\":1}'') open_world)
   \<and> delivered (snd (stdout_reader_body example_loads example_validate
        ([py ''{\"id\":1}\<newline>{\"i'', py ''d\":2}''], End_of_stream) open_world))
     = [py ''{\"id\":1}'', py ''{\"id\":2}'']"
proof -
  have t1: "trailing_fragment (concat [py ''{\"id\":1}\<newline>{\"i'', py ''d\":2}'']) = py ''{\"id\":2}''"
    by (simp add: trailing_fragment_def py_def nl_def)
  have t2: "trailing_fragment (concat [py ''{\"id\":1}\<newline>  '']) = py ''  ''"
    by (simp add: trailing_fragment_def py_def nl_def)
  have s1: "strip (py ''{\"id\":2}'') \<noteq> []" by (simp add: strip_def py_def isspace_def)
  have s2: "strip (py ''  '') = []" by (simp add: strip_def py_def isspace_def)
  have r1: "read_chunks example_loads example_validate [] [py ''{\"id\":1}\<newline>{\"i'', py ''d\":2}''] open_world
      = Inr (py ''{\"id\":2}'', process_json_line example_loads example_validate (py ''{\"id\":1}'') open_world)"
    by (simp add: list_pop_def py_def nl_def strip_def isspace_def)
  have r2: "read_chunks example_loads example_validate [] [py ''{\"id\":1}\<newline>  ''] open_world
      = Inr (py ''  '', process_json_line example_loads example_validate (py ''{\"id\":1}'') open_world)"
    by (simp add: list_pop_def py_def nl_def strip_def isspace_def)
  have d: "delivered (process_json_line example_loads example_validate (py ''{\"id\":2}'')
                (process_json_line example_loads example_validate (py ''{\"id\":1}'') open_world))
      = [py ''{\"id\":1}'', py ''{\"id\":2}'']"
    by (simp add: ev)
  show ?thesis
    using final_flush [of example_loads example_validate "[py ''{\"id\":1}\<newline>{\"i'', py ''d\":2}'']" open_world]
      final_flush [of example_loads example_validate "[py ''{\"id\":1}\<newline>  '']" open_world]
    unfolding t1 t2 r1 r2 using s1 s2 d by simp
qed

text \<open>
  C4. Malformed-line resilience. A stream whose text is a valid line, a malformed line
  and a valid line, each terminated by a newline and none blank, cut into chunks in any
  way, read with the inbound channel open: the reader returns normally, delivers exactly
  the two decoded messages in order, logs one error, for the malformed line, and has
  made all three decode attempts, so the malformed line did not stop the loop.
\<close>

theorem malformed_line_resilience:
  assumes d1: "decode jl mv l1 = Inr m1" and d2: "decode jl mv l2 = Inl exc"
    and d3: "decode jl mv l3 = Inr m3"
    and n: "nl \<notin> set l1" "nl \<notin> set l2" "nl \<notin> set l3"
    and b: "strip l1 \<noteq> []" "strip l2 \<noteq> []" "strip l3 \<noteq> []"
    and c: "\<not> chan_closed (inbound w)" "\<not> receive_end_closed (inbound w)"
    and t: "concat chunks = l1 @ [nl] @ l2 @ [nl] @ l3 @ [nl]"
  shows "fst (stdout_reader jl mv (Some (chunks, End_of_stream)) w) = Returned
    \<and> delivered (snd (stdout_reader jl mv (Some (chunks, End_of_stream)) w)) = delivered w @ [m1, m3]
    \<and> errors (snd (stdout_reader jl mv (Some (chunks, End_of_stream)) w)) =
        errors w @ [(ERROR, if exc = JSONDecodeError then JSON_decode_error exc (strip l2)
                            else Error_processing_message exc (strip l2))]
    \<and> attempts (snd (stdout_reader jl mv (Some (chunks, End_of_stream)) w)) = attempts w + 3"
proof -
  let ?w0 = "logging DEBUG Starting_stdout_reader w"
  let ?w1 = "process_json_line jl mv l1 ?w0"
  let ?w2 = "process_json_line jl mv l2 ?w1"
  let ?w3 = "process_json_line jl mv l3 ?w2"
  have sp: "split_nl (concat chunks) = [l1, l2, l3, []]"
    unfolding t using n by (rule three_lines_split)
  have cl: "complete_lines (concat chunks) = [l1, l2, l3]"
    by (simp add: complete_lines_def sp)
  have tf: "trailing_fragment (concat chunks) = []"
    using last_split_nl [of "concat chunks"] by (simp add: trailing_fragment_def sp)
  have body: "snd (stdout_reader_body jl mv (chunks, End_of_stream) ?w0) = ?w3"
    using b by (simp add: stdout_reader_body_text cl tf strip_def)
  have o0: "\<not> chan_closed (inbound ?w0)" "\<not> receive_end_closed (inbound ?w0)"
    using c by (simp_all add: logging_simps)
  have o1: "\<not> chan_closed (inbound ?w1)" "\<not> receive_end_closed (inbound ?w1)"
    using o0 by (simp_all add: process_json_line_flags)
  have o2: "\<not> chan_closed (inbound ?w2)" "\<not> receive_end_closed (inbound ?w2)"
    using o1 by (simp_all add: process_json_line_flags)
  have i1: "delivered ?w1 = delivered w @ [m1]"
    using process_json_line_open [OF o0, of jl mv l1] d1 by (simp add: delivered_def logging_simps)
  have i2: "delivered ?w2 = delivered w @ [m1]"
    using process_json_line_open [OF o1, of jl mv l2] d2 i1 by (simp add: delivered_def)
  have i3: "delivered ?w3 = delivered w @ [m1, m3]"
    using process_json_line_open [OF o2, of jl mv l3] d3 i2 by (simp add: delivered_def)
  have e1: "errors ?w1 = errors w"
    using process_json_line_errors [OF o0, of jl mv l1] d1 by (simp add: logging_simps)
  have e2: "errors ?w2 =
      errors w @ [(ERROR, if exc = JSONDecodeError then JSON_decode_error exc (strip l2)
                          else Error_processing_message exc (strip l2))]"
    using process_json_line_errors [OF o1, of jl mv l2] d2 e1 by simp
  have e3: "errors ?w3 = errors ?w2"
    using process_json_line_errors [OF o2, of jl mv l3] d3 by simp
  have a3: "attempts ?w3 = attempts w + 3"
    by (simp add: attempts_process_json_line logging_simps)
  show ?thesis
    unfolding stdout_reader_end_of_stream body
    by (simp add: logging_simps aclose_simps i3 e3 e2 a3)
qed

theorem malformed_line_resilience_witness:
  "fst (stdout_reader example_loads example_validate
      (Some ([py ''{\"id\":1}\<newline>{\"id\"'', py ''\<newline>{\"id\":3}\<newline>''], End_of_stream)) open_world) = Returned
   \<and> delivered (snd (stdout_reader example_loads example_validate
      (Some ([py ''{\"id\":1}\<newline>{\"id\"'', py ''\<newline>{\"id\":3}\<newline>''], End_of_stream)) open_world))
      = [py ''{\"id\":1}'', py ''{\"id\":3}'']
   \<and> errors (snd (stdout_reader example_loads example_validate
      (Some ([py ''{\"id\":1}\<newline>{\"id\"'', py ''\<newline>{\"id\":3}\<newline>''], End_of_stream)) open_world))
      = [(ERROR, JSON_decode_error JSONDecodeError (py ''{\"id\"''))]"
proof -
  have d1: "decode example_loads example_validate (py ''{\"id\":1}'') = Inr (py ''{\"id\":1}'')"
    by (simp add: ev)
  have d2: "decode example_loads example_validate (py ''{\"id\"'') = Inl JSONDecodeError"
    by (simp add: ev)
  have d3: "decode example_loads example_validate (py ''{\"id\":3}'') = Inr (py ''{\"id\":3}'')"
    by (simp add: ev)
  have n: "nl \<notin> set (py ''{\"id\":1}'')" "nl \<notin> set (py ''{\"id\"'')" "nl \<notin> set (py ''{\"id\":3}'')"
    by (simp_all add: py_def nl_def)
  have b: "strip (py ''{\"id\":1}'') \<noteq> []" "strip (py ''{\"id\"'') \<noteq> []" "strip (py ''{\"id\":3}'') \<noteq> []"
    by (simp_all add: py_def strip_def isspace_def)
  have c: "\<not> chan_closed (inbound open_world)" "\<not> receive_end_closed (inbound open_world)"
    by (simp_all add: open_world_def)
  have t: "concat [py ''{\"id\":1}\<newline>{\"id\"'', py ''\<newline>{\"id\":3}\<newline>'']
      = py ''{\"id\":1}'' @ [nl] @ py ''{\"id\"'' @ [nl] @ py ''{\"id\":3}'' @ [nl]"
    by (simp add: py_def nl_def)
  have s: "strip (py ''{\"id\"'') = py ''{\"id\"''" by (simp add: py_def strip_def isspace_def)
  have e: "delivered open_world = []" "errors open_world = []"
    by (simp_all add: open_world_def delivered_def errors_def)
  show ?thesis
    using malformed_line_resilience [OF d1 d2 d3 n b c t] s e by simp
qed

lemma process_json_line_closed:
  assumes "chan_closed (inbound w) \<or> receive_end_closed (inbound w)"
  shows "inbound (process_json_line jl mv line w) = inbound w"
    and "length (errors (process_json_line jl mv line w)) = Suc (length (errors w))"
  using assms
  by (auto simp: process_json_line_def process_json_line_except_def logging_def send_def Let_def
      errors_def split: sum.splits)

lemma process_lines_closed:
  assumes "chan_closed (inbound w) \<or> receive_end_closed (inbound w)"
  shows "inbound (process_lines jl mv ls w) = inbound w
    \<and> attempts (process_lines jl mv ls w) = attempts w + length (filter (\<lambda>l. strip l \<noteq> []) ls)
    \<and> length (errors (process_lines jl mv ls w))
        = length (errors w) + length (filter (\<lambda>l. strip l \<noteq> []) ls)"
  using assms
proof (induction ls arbitrary: w)
  case Nil
  then show ?case by simp
next
  case (Cons l ls)
  show ?case
  proof (cases "strip l = []")
    case True
    then show ?thesis using Cons.IH [OF Cons.prems] by simp
  next
    case False
    let ?w = "process_json_line jl mv l w"
    have i: "inbound ?w = inbound w" using process_json_line_closed(1) [OF Cons.prems] .
    then have c: "chan_closed (inbound ?w) \<or> receive_end_closed (inbound ?w)"
      using Cons.prems by simp
    show ?thesis
      using False Cons.IH [OF c] i process_json_line_closed(2) [OF Cons.prems, of jl mv l]
      by (simp add: attempts_process_json_line)
  qed
qed

text \<open>
  C1, as stated, fails on the code. A send on a closed inbound channel raises inside the
  \<open>try\<close> of \<open>process_json_line\<close>, whose handler for \<open>Exception\<close> (line 60) logs it as
  an error and returns; the exception never reaches \<open>stdout_reader\<close>. On two valid
  lines, with the receive end closed by the caller, the loop does not stop at the first
  line: it makes a second decode attempt, and it is not silent: it logs an error record
  and a traceback for each line, and no record \<open>Read stream closed\<close>.
\<close>

theorem closed_channel_loop_does_not_stop:
  "attempts (snd (stdout_reader example_loads example_validate
     (Some ([py ''{\"id\":1}\<newline>{\"id\":2}\<newline>''], End_of_stream)) receiver_closed_world)) = 2
   \<and> stdout_reader example_loads example_validate
     (Some ([py ''{\"id\":1}\<newline>{\"id\":2}\<newline>''], End_of_stream)) receiver_closed_world
   = (Returned,
      \<lparr>inbound = \<lparr>items = [], chan_closed = True, receive_end_closed = True\<rparr>,
       logged =
         [(DEBUG, Starting_stdout_reader),
          (DEBUG, Processing_line (py ''{\"id\":1}'')),
          (DEBUG, Parsed_JSON_data),
          (DEBUG, Validated_JSONRPCMessage),
          (ERROR, Error_processing_message BrokenResourceError (py ''{\"id\":1}'')),
          (DEBUG, Traceback),
          (DEBUG, Processing_line (py ''{\"id\":2}'')),
          (DEBUG, Parsed_JSON_data),
          (DEBUG, Validated_JSONRPCMessage),
          (ERROR, Error_processing_message BrokenResourceError (py ''{\"id\":2}'')),
          (DEBUG, Traceback),
          (DEBUG, Exiting_stdout_reader)]\<rparr>)"
  by (simp add: ev)

text \<open>
  C1, amended. With the inbound channel closed, at its send end or at its receive end,
  the reader forwards no message and returns without raising when stdout ends; but it
  does not stop before: every line that is not blank is still attempted, and each attempt
  leaves one error record.
\<close>

theorem closed_channel_reader_runs_on:
  assumes "chan_closed (inbound w) \<or> receive_end_closed (inbound w)"
  shows "fst (stdout_reader jl mv (Some (chunks, End_of_stream)) w) = Returned
    \<and> delivered (snd (stdout_reader jl mv (Some (chunks, End_of_stream)) w)) = delivered w
    \<and> attempts (snd (stdout_reader jl mv (Some (chunks, End_of_stream)) w))
        = attempts w + length (nonblank_lines (concat chunks))
    \<and> length (errors (snd (stdout_reader jl mv (Some (chunks, End_of_stream)) w)))
        = length (errors w) + length (nonblank_lines (concat chunks))"
proof -
  let ?w0 = "logging DEBUG Starting_stdout_reader w"
  let ?w1 = "process_lines jl mv (complete_lines (concat chunks)) ?w0"
  let ?b = "trailing_fragment (concat chunks)"
  let ?w2 = "if strip ?b \<noteq> [] then process_json_line jl mv ?b ?w1 else ?w1"
  have c0: "chan_closed (inbound ?w0) \<or> receive_end_closed (inbound ?w0)"
    using assms by (simp add: logging_simps)
  note p = process_lines_closed [OF c0, of jl mv "complete_lines (concat chunks)"]
  have c1: "chan_closed (inbound ?w1) \<or> receive_end_closed (inbound ?w1)"
    using p c0 by simp
  have body: "snd (stdout_reader_body jl mv (chunks, End_of_stream) ?w0) = ?w2"
    by (simp add: stdout_reader_body_text Let_def)
  have i: "delivered ?w2 = delivered w"
    using p process_json_line_closed(1) [OF c1, of jl mv ?b]
    by (simp add: delivered_def logging_simps)
  have a: "attempts ?w2 = attempts w + length (nonblank_lines (concat chunks))"
    using p by (simp add: nonblank_lines_def attempts_process_json_line logging_simps)
  have e: "length (errors ?w2) = length (errors w) + length (nonblank_lines (concat chunks))"
    using p process_json_line_closed(2) [OF c1, of jl mv ?b]
    by (simp add: nonblank_lines_def logging_simps)
  show ?thesis
    unfolding stdout_reader_end_of_stream body
    using i a e by (simp add: logging_simps aclose_simps)
qed

theorem closed_channel_reader_runs_on_witness:
  "fst (stdout_reader example_loads example_validate
      (Some ([py ''{\"id\":1}\<newline>{\"id\":2}\<newline>''], End_of_stream)) receiver_closed_world) = Returned
   \<and> delivered (snd (stdout_reader example_loads example_validate
      (Some ([py ''{\"id\":1}\<newline>{\"id\":2}\<newline>''], End_of_stream)) receiver_closed_world)) = []
   \<and> attempts (snd (stdout_reader example_loads example_validate
      (Some ([py ''{\"id\":1}\<newline>{\"id\":2}\<newline>''], End_of_stream)) receiver_closed_world)) = 2
   \<and> length (errors (snd (stdout_reader example_loads example_validate
      (Some ([py ''{\"id\":1}\<newline>{\"id\":2}\<newline>''], End_of_stream)) receiver_closed_world))) = 2"
proof -
  have c: "chan_closed (inbound receiver_closed_world) \<or> receive_end_closed (inbound receiver_closed_world)"
    by (simp add: receiver_closed_world_def)
  have n: "nonblank_lines (concat [py ''{\"id\":1}\<newline>{\"id\":2}\<newline>''])
      = [py ''{\"id\":1}'', py ''{\"id\":2}'']"
    by (simp add: nonblank_lines_def complete_lines_def trailing_fragment_def py_def nl_def
        strip_def isspace_def)
  have z: "delivered receiver_closed_world = []" "attempts receiver_closed_world = 0"
    "errors receiver_closed_world = []"
    by (simp_all add: receiver_closed_world_def delivered_def attempts_def errors_def)
  show ?thesis
    using closed_channel_reader_runs_on [OF c, of example_loads example_validate
        "[py ''{\"id\":1}\<newline>{\"id\":2}\<newline>'']"]
    unfolding n z by simp
qed

section \<open>Properties of the opening\<close>

text \<open>
  C5. Opening fails on its parameters exactly when the command is empty or the arguments
  are neither a list nor a tuple. Otherwise both checks pass and the launch is attempted:
  \<open>open_process\<close> is called with the command followed by the arguments, and its
  result, the process or the exception of the launch, is the result of the opening.
\<close>

theorem invalid_parameters_iff:
  "(invalid_parameters (stdio_client_open de op server)
      \<longleftrightarrow> command server = [] \<or> \<not> isinstance_list_tuple (args server))
   \<and> (\<not> (command server = [] \<or> \<not> isinstance_list_tuple (args server)) \<longrightarrow>
        (\<exists>rest. unpack (args server) = Inr rest
           \<and> Open_process (command server # rest) (de ++ or_empty (env server))
               \<in> set (fst (stdio_client_open de op server))
           \<and> snd (stdio_client_open de op server)
               = op (command server # rest) (de ++ or_empty (env server))))"
  by (cases "args server")
    (auto simp: stdio_client_open_def invalid_parameters_def Let_def split: sum.splits)

theorem invalid_parameters_iff_witness:
  "invalid_parameters (stdio_client_open example_default_environment example_open_process
      (example_server\<lparr>command := []\<rparr>))
   \<and> invalid_parameters (stdio_client_open example_default_environment example_open_process
      (example_server\<lparr>args := Str_of (py ''mcp-server-sqlite'')\<rparr>))
   \<and> \<not> invalid_parameters (stdio_client_open example_default_environment example_open_process
      example_server)
   \<and> Open_process [py ''uvx'', py ''mcp-server-sqlite'']
        (example_default_environment ++ [py ''PATH'' \<mapsto> py ''/opt/bin'', py ''DB'' \<mapsto> py ''test.db''])
        \<in> set (fst (stdio_client_open example_default_environment example_open_process example_server))
   \<and> snd (stdio_client_open example_default_environment example_open_process example_server)
        = Inr 4242"
  using invalid_parameters_iff [of example_default_environment example_open_process
      "example_server\<lparr>command := []\<rparr>"]
    invalid_parameters_iff [of example_default_environment example_open_process
      "example_server\<lparr>args := Str_of (py ''mcp-server-sqlite'')\<rparr>"]
    invalid_parameters_iff [of example_default_environment example_open_process example_server]
  by (simp add: example_server_def example_open_process_def or_empty_def py_def)

text \<open>
  C9. With a command that is not empty and arguments that are a list or a tuple, the
  child is launched once, with an environment in which every key of \<open>server.env\<close> has
  the value \<open>server.env\<close> gives it and every other key has the value of the default
  environment (all of them when \<open>server.env\<close> is \<open>None\<close>).
\<close>

theorem launch_environment_overlay:
  assumes "command server \<noteq> []" and "isinstance_list_tuple (args server)"
  shows "\<exists>argv environ.
           Open_process argv environ \<in> set (fst (stdio_client_open de op server))
         \<and> (\<forall>argv' environ'. Open_process argv' environ' \<in> set (fst (stdio_client_open de op server))
               \<longrightarrow> argv' = argv \<and> environ' = environ)
         \<and> (\<forall>k. (k \<in> dom (or_empty (env server)) \<longrightarrow> environ k = or_empty (env server) k)
               \<and> (k \<notin> dom (or_empty (env server)) \<longrightarrow> environ k = de k))"
proof -
  obtain rest where r: "unpack (args server) = Inr rest"
    using assms(2) by (cases "args server") auto
  let ?environ = "de ++ or_empty (env server)"
  have ov: "\<forall>k. (k \<in> dom (or_empty (env server)) \<longrightarrow> ?environ k = or_empty (env server) k)
               \<and> (k \<notin> dom (or_empty (env server)) \<longrightarrow> ?environ k = de k)"
    by (auto simp: map_add_def split: option.splits)
  have "fst (stdio_client_open de op server) =
      [Create_memory_object_stream 0, Create_memory_object_stream 0,
       Open_process (command server # rest) ?environ]
      \<or> fst (stdio_client_open de op server) =
      [Create_memory_object_stream 0, Create_memory_object_stream 0,
       Open_process (command server # rest) ?environ, Logged DEBUG Subprocess_started]"
    using assms r by (simp add: stdio_client_open_def Let_def split: sum.splits)
  then show ?thesis using ov by (intro exI [of _ "command server # rest"] exI [of _ ?environ]) auto
qed

theorem launch_environment_overlay_witness:
  "\<exists>argv environ.
      Open_process argv environ
        \<in> set (fst (stdio_client_open example_default_environment example_open_process example_server))
      \<and> environ (py ''HOME'') = Some (py ''/root'')
      \<and> environ (py ''PATH'') = Some (py ''/opt/bin'')
      \<and> environ (py ''DB'') = Some (py ''test.db'')"
proof -
  have a: "command example_server \<noteq> []" by (simp add: example_server_def py_def)
  have b: "isinstance_list_tuple (args example_server)" by (simp add: example_server_def)
  obtain argv environ where
    o: "Open_process argv environ
        \<in> set (fst (stdio_client_open example_default_environment example_open_process example_server))"
    and k: "\<forall>k. (k \<in> dom (or_empty (env example_server)) \<longrightarrow> environ k = or_empty (env example_server) k)
               \<and> (k \<notin> dom (or_empty (env example_server)) \<longrightarrow> environ k = example_default_environment k)"
    using launch_environment_overlay [OF a b, of example_default_environment example_open_process]
    by blast
  have "environ (py ''HOME'') = Some (py ''/root'')"
    using k [rule_format, of "py ''HOME''"]
    by (simp add: example_server_def example_default_environment_def or_empty_def py_def)
  moreover have "environ (py ''PATH'') = Some (py ''/opt/bin'')"
    using k [rule_format, of "py ''PATH''"]
    by (simp add: example_server_def example_default_environment_def or_empty_def py_def)
  moreover have "environ (py ''DB'') = Some (py ''test.db'')"
    using k [rule_format, of "py ''DB''"]
    by (simp add: example_server_def example_default_environment_def or_empty_def py_def)
  ultimately show ?thesis using o by blast
qed

text \<open>
  C10. With an empty command, or arguments that are neither a list nor a tuple, the
  opening raises \<open>ValueError\<close> with no effect before it: no memory object stream has
  been created and no process launched, whatever the launch would have done.
\<close>

theorem invalid_parameters_acquire_nothing:
  "command server = [] \<or> \<not> isinstance_list_tuple (args server) \<Longrightarrow>
   fst (stdio_client_open de op server) = []
   \<and> (\<exists>msg. snd (stdio_client_open de op server) = Inl (ValueError msg))"
  by (auto simp: stdio_client_open_def)

theorem invalid_parameters_acquire_nothing_witness:
  "stdio_client_open example_default_environment example_open_process
      (example_server\<lparr>command := []\<rparr>)
     = ([], Inl (ValueError ''Server command must not be empty.''))
   \<and> stdio_client_open example_default_environment example_open_process
      (example_server\<lparr>args := None_value\<rparr>)
     = ([], Inl (ValueError ''Server arguments must be a list or tuple.''))"
proof -
  have a: "command (example_server\<lparr>command := []\<rparr>) = []
      \<or> \<not> isinstance_list_tuple (args (example_server\<lparr>command := []\<rparr>))"
    by simp
  have b: "command (example_server\<lparr>args := None_value\<rparr>) = []
      \<or> \<not> isinstance_list_tuple (args (example_server\<lparr>args := None_value\<rparr>))"
    by simp
  show ?thesis
    using invalid_parameters_acquire_nothing [OF a, of example_default_environment example_open_process]
      invalid_parameters_acquire_nothing [OF b, of example_default_environment example_open_process]
    by (simp add: stdio_client_open_def example_server_def py_def)
qed

section \<open>Properties of the termination\<close>

lemma terminate_process_cases:
  "terminate_process p =
     (case returncode p of
        Some rc \<Rightarrow> (Returned, [], [(INFO, Process_already_terminated)])
      | None \<Rightarrow>
          (case terminate_raises p of
             Some err \<Rightarrow>
               (Returned, [Call_terminate],
                [(DEBUG, Terminating_subprocess),
                 (ERROR, Error_during_process_termination (OSError err))])
           | None \<Rightarrow>
               if (case exit_delay p of None \<Rightarrow> False | Some d \<Rightarrow> d < 5)
               then (Returned, [Call_terminate, Call_wait (the (exit_delay p))],
                     [(DEBUG, Terminating_subprocess)])
               else (Returned, [Call_terminate, Call_wait 5, Call_kill],
                     [(DEBUG, Terminating_subprocess),
                      (WARNING, Process_did_not_terminate_gracefully)]
                     @ (case kill_raises p of
                          None \<Rightarrow> []
                        | Some err \<Rightarrow> [(ERROR, Error_killing_process (OSError err))]))))"
  by (simp add: terminate_process_def terminate_try_def fail_after_wait_def Let_def
      split: option.split)

text \<open>
  C6. \<open>terminate_process\<close> always returns: no exception leaves it, whatever
  \<open>process.terminate()\<close> or \<open>process.kill()\<close> raise. On a child that has exited it makes
  no call. On a child that has not, it sends the termination request; if the request
  raises, that is all; otherwise it waits, for the time the child takes to exit when that
  is less than 5 seconds, and for 5 seconds otherwise, after which, and only then, it
  kills the child. No wait is longer than 5 seconds. An error of the kill is logged.
\<close>

theorem terminate_process_bounded:
  "fst (terminate_process p) = Returned
   \<and> fst (snd (terminate_process p)) =
       (if returncode p \<noteq> None then []
        else if terminate_raises p \<noteq> None then [Call_terminate]
        else case exit_delay p of
               None \<Rightarrow> [Call_terminate, Call_wait 5, Call_kill]
             | Some d \<Rightarrow>
                 if d < 5 then [Call_terminate, Call_wait d]
                 else [Call_terminate, Call_wait 5, Call_kill])
   \<and> (\<forall>d. Call_wait d \<in> set (fst (snd (terminate_process p))) \<longrightarrow> d \<le> 5)
   \<and> (\<forall>err. Call_kill \<in> set (fst (snd (terminate_process p))) \<longrightarrow> kill_raises p = Some err \<longrightarrow>
         (ERROR, Error_killing_process (OSError err)) \<in> set (snd (snd (terminate_process p))))"
proof (cases "returncode p")
  case (Some rc)
  then show ?thesis by (simp add: terminate_process_cases)
next
  case None
  note rc = None
  show ?thesis
  proof (cases "terminate_raises p")
    case (Some err)
    then show ?thesis using rc by (simp add: terminate_process_cases)
  next
    case None
    note tr = None
    show ?thesis
    proof (cases "exit_delay p")
      case None
      then show ?thesis using rc tr by (simp add: terminate_process_cases)
    next
      case (Some d)
      then show ?thesis using rc tr by (cases "d < 5") (simp_all add: terminate_process_cases)
    qed
  qed
qed

theorem terminate_process_bounded_witness:
  "terminate_process stubborn_process
     = (Returned, [Call_terminate, Call_wait 5, Call_kill],
        [(DEBUG, Terminating_subprocess), (WARNING, Process_did_not_terminate_gracefully),
         (ERROR, Error_killing_process (OSError PermissionError))])
   \<and> fst (snd (terminate_process (stubborn_process\<lparr>exit_delay := Some 8\<rparr>)))
     = [Call_terminate, Call_wait 5, Call_kill]
   \<and> fst (snd (terminate_process (stubborn_process\<lparr>exit_delay := Some 5\<rparr>)))
     = [Call_terminate, Call_wait 5, Call_kill]
   \<and> terminate_process (stubborn_process\<lparr>exit_delay := Some 2\<rparr>)
     = (Returned, [Call_terminate, Call_wait 2], [(DEBUG, Terminating_subprocess)])
   \<and> terminate_process (stubborn_process\<lparr>terminate_raises := Some ProcessLookupError\<rparr>)
     = (Returned, [Call_terminate],
        [(DEBUG, Terminating_subprocess),
         (ERROR, Error_during_process_termination (OSError ProcessLookupError))])
   \<and> terminate_process exited_process = (Returned, [], [(INFO, Process_already_terminated)])"
proof -
  have a: "terminate_process stubborn_process
     = (Returned, [Call_terminate, Call_wait 5, Call_kill],
        [(DEBUG, Terminating_subprocess), (WARNING, Process_did_not_terminate_gracefully),
         (ERROR, Error_killing_process (OSError PermissionError))])"
    by (simp add: terminate_process_cases stubborn_process_def)
  have b: "terminate_process (stubborn_process\<lparr>exit_delay := Some 2\<rparr>)
     = (Returned, [Call_terminate, Call_wait 2], [(DEBUG, Terminating_subprocess)])"
    by (simp add: terminate_process_cases stubborn_process_def)
  have c: "terminate_process (stubborn_process\<lparr>terminate_raises := Some ProcessLookupError\<rparr>)
     = (Returned, [Call_terminate],
        [(DEBUG, Terminating_subprocess),
         (ERROR, Error_during_process_termination (OSError ProcessLookupError))])"
    by (simp add: terminate_process_cases stubborn_process_def)
  have d: "terminate_process exited_process = (Returned, [], [(INFO, Process_already_terminated)])"
    by (simp add: terminate_process_cases exited_process_def)
  have e: "fst (snd (terminate_process (stubborn_process\<lparr>exit_delay := Some 8\<rparr>)))
     = [Call_terminate, Call_wait 5, Call_kill]"
    using terminate_process_bounded [of "stubborn_process\<lparr>exit_delay := Some 8\<rparr>"]
    by (simp add: stubborn_process_def)
  have f: "fst (snd (terminate_process (stubborn_process\<lparr>exit_delay := Some 5\<rparr>)))
     = [Call_terminate, Call_wait 5, Call_kill]"
    using terminate_process_bounded [of "stubborn_process\<lparr>exit_delay := Some 5\<rparr>"]
    by (simp add: stubborn_process_def)
  show ?thesis using a b c d e f by simp
qed

section \<open>The codec: strings\<close>

declare dec.simps [simp del]






section \<open>The codec: integers\<close>

lemma dec_not_Nil: "dec n \<noteq> []"
  by (subst dec.simps) simp

lemma dec_digits: "c \<in> set (dec n) \<Longrightarrow> is_digit c"
proof (induction n arbitrary: c rule: dec.induct)
  case (1 n)
  show ?case
  proof (cases "n < 10")
    case True
    then show ?thesis using "1.prems" by (subst (asm) dec.simps) (simp add: is_digit_def)
  next
    case False
    have "n mod 10 < 10" by simp
    then have "is_digit (48 + n mod 10)" by (simp add: is_digit_def)
    then show ?thesis
      using False "1.prems" "1.IH" by (subst (asm) dec.simps) auto
  qed
qed








section \<open>The codec: values\<close>



lemma dump_int_Cons: "\<exists>c cs. dump_int i = c # cs \<and> (c = 45 \<or> is_digit c)"
proof (cases "i < 0")
  case True
  then show ?thesis by (simp add: dump_int_def)
next
  case False
  obtain c cs where d: "dec (nat i) = c # cs"
    using dec_not_Nil [of "nat i"] by (cases "dec (nat i)") auto
  then have "is_digit c" using dec_digits [of c "nat i"] by simp
  then show ?thesis using False d by (simp add: dump_int_def)
qed

lemma dumps_Cons: "\<exists>c cs. dumps v = c # cs \<and> value_start c"
proof (cases v)
  case (JInt i)
  then show ?thesis
    using dump_int_Cons [of i] by (auto simp: value_start_def is_ws_def is_digit_def)
qed (auto simp: py_def dump_str_def value_start_def is_ws_def)

lemma skip_ws_start: "value_start c \<Longrightarrow> skip_ws (c # cs) = c # cs"
  by (simp add: skip_ws_def value_start_def)

lemma skip_ws_dumps: "skip_ws (dumps v @ rest) = dumps v @ rest"
  using dumps_Cons [of v] by (auto simp: skip_ws_start)











section \<open>The encoded line\<close>







section \<open>The message and its dict\<close>





section \<open>Properties of the codec on the transport\<close>







end
